theory Spec2Isabelle
  imports Complex_Main
begin

section \<open>The model\<close>

subsection \<open>JavaScript values\<close>

text \<open>
  The values the message handlers work on: what \<^verbatim>\<open>JSON.parse\<close> returns (null, booleans,
  numbers, strings, arrays, objects) and \<^verbatim>\<open>undefined\<close>, which a missing property reads
  as. An object is its list of own properties in order, each name once. Numbers are
  modelled as reals:
  the handlers only compare them, scale them by powers of two and round them to decimals,
  which is exact on doubles short of overflow.
\<close>

datatype jsval =
  JUndefined
  | JNull
  | JBool bool
  | JNum real
  | JStr string
  | JArr "jsval list"
  | JObj "(string \<times> jsval) list"

text \<open>Truthiness, as \<^verbatim>\<open>if (x)\<close>, \<^verbatim>\<open>!x\<close> and \<^verbatim>\<open>||\<close> test it.\<close>

fun truthy :: "jsval \<Rightarrow> bool" where
  "truthy JUndefined = False"
| "truthy JNull = False"
| "truthy (JBool b) = b"
| "truthy (JNum n) = (n \<noteq> 0)"
| "truthy (JStr s) = (s \<noteq> [])"
| "truthy (JArr xs) = True"
| "truthy (JObj kvs) = True"

text \<open>\<^verbatim>\<open>typeof x === 'object'\<close> holds of objects, arrays and \<^verbatim>\<open>null\<close>.\<close>

fun typeof_object :: "jsval \<Rightarrow> bool" where
  "typeof_object JNull = True"
| "typeof_object (JArr xs) = True"
| "typeof_object (JObj kvs) = True"
| "typeof_object v = False"

fun isArray :: "jsval \<Rightarrow> bool" where
  "isArray (JArr xs) = True"
| "isArray v = False"

text \<open>
  Reading a property by one of the names the handlers use (\<^verbatim>\<open>name\<close>, \<^verbatim>\<open>metric_type\<close>,
  \<^verbatim>\<open>open_orders\<close>, ...): an object gives its own property, everything else gives
  \<^verbatim>\<open>undefined\<close>, since none of these names is an index, \<^verbatim>\<open>length\<close> or a method of a
  prototype. (Reading a property of \<^verbatim>\<open>null\<close> or \<^verbatim>\<open>undefined\<close> throws; the handlers test
  for truthiness first wherever that could happen, and where they do not, the model
  says so.)
\<close>

fun readProp :: "jsval \<Rightarrow> string \<Rightarrow> jsval" where
  "readProp (JObj kvs) k = (case map_of kvs k of Some v \<Rightarrow> v | None \<Rightarrow> JUndefined)"
| "readProp v k = JUndefined"

text \<open>A destructuring default, \<^verbatim>\<open>{ labels = {} }\<close>: used when the property is \<^verbatim>\<open>undefined\<close>.\<close>

definition orDefault :: "jsval \<Rightarrow> jsval \<Rightarrow> jsval" where
  "orDefault v d = (if v = JUndefined then d else v)"

text \<open>Decimal digits of a natural number (array indices as property names, \<^verbatim>\<open>toFixed\<close>).\<close>

fun digits :: "nat \<Rightarrow> string" where
  "digits n =
     (if n < 10 then [''0123456789'' ! n]
      else digits (n div 10) @ [''0123456789'' ! (n mod 10)])"

declare digits.simps [simp del]

text \<open>
  What the handlers take from the platform without the repository defining it: the
  string conversion of a value (template literals and property keys), \<^verbatim>\<open>JSON.stringify\<close>,
  \<^verbatim>\<open>String.prototype.toLowerCase\<close>, and the one-character strings a string spreads into.
  They are parameters of the model: the properties below hold whatever they return.
\<close>

record platform =
  ToString :: "jsval \<Rightarrow> string"
  JSON_stringify :: "jsval \<Rightarrow> string"
  toLowerCase :: "string \<Rightarrow> string"
  characters :: "string \<Rightarrow> string list"

text \<open>
  Own enumerable properties, as \<^verbatim>\<open>Object.entries\<close> and the spread \<^verbatim>\<open>{...x}\<close> see them:
  an array has its indices, a string its characters, other primitives have none.
\<close>

definition indexed :: "jsval list \<Rightarrow> (string \<times> jsval) list" where
  "indexed xs = zip (map digits [0..<length xs]) xs"

fun entries :: "platform \<Rightarrow> jsval \<Rightarrow> (string \<times> jsval) list" where
  "entries P (JObj kvs) = kvs"
| "entries P (JArr xs) = indexed xs"
| "entries P (JStr s) = indexed (map JStr (characters P s))"
| "entries P v = []"

definition spread :: "platform \<Rightarrow> jsval \<Rightarrow> jsval" where
  "spread P v = JObj (entries P v)"

text \<open>
  Assigning \<^verbatim>\<open>obj[key] = value\<close> on one of the cache objects. The caches are modelled by
  their own properties; the key \<^verbatim>\<open>__proto__\<close> reaches the inherited setter and creates no
  own property.
\<close>

type_synonym cache = "string \<rightharpoonup> jsval"

definition assign :: "cache \<Rightarrow> string \<Rightarrow> jsval \<Rightarrow> cache" where
  "assign c k v = (if k = ''__proto__'' then c else c(k \<mapsto> v))"

text \<open>
  \<^verbatim>\<open>{...obj, last_updated}\<close> and the like: setting a property of an object value keeps
  the place of an existing property and appends a new one.
\<close>

fun setField :: "(string \<times> jsval) list \<Rightarrow> string \<Rightarrow> jsval \<Rightarrow> (string \<times> jsval) list" where
  "setField [] k v = [(k, v)]"
| "setField ((k', v') # kvs) k v =
     (if k' = k then (k, v) # kvs else (k', v') # setField kvs k v)"

subsection \<open>Subscription registry and fan-out\<close>

text \<open>
  \<^verbatim>\<open>widgetSubscribers\<close>, \<^verbatim>\<open>subscribeToStream\<close>, \<^verbatim>\<open>unsubscribeFromStream\<close> and
  \<^verbatim>\<open>notifyWidgets\<close> (utils/websocket.js). A callback is a function object; the registry
  compares callbacks by identity, so a callback is represented by an identifier and its
  behaviour is looked up in a table of handlers.
\<close>

type_synonym callback = nat

text \<open>
  The platform's \<^verbatim>\<open>Set\<close>, as ECMA-262 specifies it: an insertion-ordered list of slots.
  \<^verbatim>\<open>add\<close> appends a value that no slot holds, \<^verbatim>\<open>delete\<close> empties the slot that
  holds the value and leaves the slot in place, and \<^verbatim>\<open>forEach\<close> walks the slots by index,
  reading the list again at every step and passing over empty slots.
\<close>

type_synonym jsSet = "callback option list"

definition Set_add :: "callback \<Rightarrow> jsSet \<Rightarrow> jsSet" where
  "Set_add v s = (if Some v \<in> set s then s else s @ [Some v])"

definition Set_delete :: "callback \<Rightarrow> jsSet \<Rightarrow> jsSet" where
  "Set_delete v s = map (\<lambda>e. if e = Some v then None else e) s"

definition Set_values :: "jsSet \<Rightarrow> callback list" where
  "Set_values s = concat (map (\<lambda>e. case e of None \<Rightarrow> [] | Some v \<Rightarrow> [v]) s)"

text \<open>
  \<^verbatim>\<open>widgetSubscribers\<close> is an object literal with one \<^verbatim>\<open>Set\<close> for each of the four
  streams. The property read \<^verbatim>\<open>widgetSubscribers[streamName]\<close> finds one of the four
  own properties, or a property that every object literal inherits from
  \<^verbatim>\<open>Object.prototype\<close> (a function, or the prototype object itself: truthy values that
  have no \<^verbatim>\<open>add\<close>, \<^verbatim>\<open>delete\<close> or \<^verbatim>\<open>forEach\<close>), or nothing (\<^verbatim>\<open>undefined\<close>).
\<close>

datatype stream = Telemetry | Balance | System | Log

type_synonym widgetSubscribers = "stream \<Rightarrow> jsSet"

definition emptySubscribers :: widgetSubscribers where
  "emptySubscribers = (\<lambda>_. [])"

definition ownProperty :: "string \<Rightarrow> stream option" where
  "ownProperty streamName =
     (if streamName = ''telemetry'' then Some Telemetry
      else if streamName = ''balance'' then Some Balance
      else if streamName = ''system'' then Some System
      else if streamName = ''log'' then Some Log
      else None)"

definition objectPrototypeKeys :: "string list" where
  "objectPrototypeKeys =
     [''constructor'', ''hasOwnProperty'', ''isPrototypeOf'', ''propertyIsEnumerable'',
      ''toLocaleString'', ''toString'', ''valueOf'', ''__proto__'',
      ''__defineGetter__'', ''__defineSetter__'', ''__lookupGetter__'',
      ''__lookupSetter__'']"

datatype property = OwnSet stream | Inherited | Undefined

definition getProperty :: "string \<Rightarrow> property" where
  "getProperty streamName =
     (case ownProperty streamName of
        Some ch \<Rightarrow> OwnSet ch
      | None \<Rightarrow> if streamName \<in> set objectPrototypeKeys then Inherited else Undefined)"

text \<open>
  What a call can throw: the \<^verbatim>\<open>TypeError\<close> of calling a method that is not there,
  the \<^verbatim>\<open>SyntaxError\<close> of \<^verbatim>\<open>JSON.parse\<close>, or whatever a callback throws.
\<close>

datatype exn = TypeError | SyntaxError | Thrown nat

definition subscribeToStream ::
    "string \<Rightarrow> callback \<Rightarrow> widgetSubscribers \<Rightarrow> exn + widgetSubscribers" where
  "subscribeToStream streamName cb subs =
     (case getProperty streamName of
        OwnSet ch \<Rightarrow> Inr (subs(ch := Set_add cb (subs ch)))
      | Inherited \<Rightarrow> Inl TypeError
      | Undefined \<Rightarrow> Inr subs)"

definition unsubscribeFromStream ::
    "string \<Rightarrow> callback \<Rightarrow> widgetSubscribers \<Rightarrow> exn + widgetSubscribers" where
  "unsubscribeFromStream streamName cb subs =
     (case getProperty streamName of
        OwnSet ch \<Rightarrow> Inr (subs(ch := Set_delete cb (subs ch)))
      | Inherited \<Rightarrow> Inl TypeError
      | Undefined \<Rightarrow> Inr subs)"

text \<open>
  A callback, run on a payload, may change the registry (through the two functions
  above) and then returns or throws: \<open>(None, subs')\<close> or \<open>(Some e, subs')\<close>.
\<close>

type_synonym 'p handlers =
  "callback \<Rightarrow> 'p \<Rightarrow> widgetSubscribers \<Rightarrow> exn option \<times> widgetSubscribers"

text \<open>
  The state of one publish: the registry, the calls made so far in order (which callback,
  with which payload), and what the \<^verbatim>\<open>catch\<close> block wrote with \<^verbatim>\<open>console.error\<close>.
\<close>

record 'p publish =
  registry :: widgetSubscribers
  invoked :: "(callback \<times> 'p) list"
  consoleErrors :: "exn list"

text \<open>
  One step of \<^verbatim>\<open>forEach\<close> at a slot: an empty slot is passed over; otherwise the arrow
  function runs \<^verbatim>\<open>try { callback(data) } catch (error) { console.error(...) }\<close>.
\<close>

definition visit :: "'p handlers \<Rightarrow> stream \<Rightarrow> 'p \<Rightarrow> nat \<Rightarrow> 'p publish \<Rightarrow> 'p publish" where
  "visit h ch data index st =
     (case registry st ch ! index of
        None \<Rightarrow> st
      | Some cb \<Rightarrow>
          (case h cb data (registry st) of
             (None, subs') \<Rightarrow>
               st\<lparr>registry := subs', invoked := invoked st @ [(cb, data)]\<rparr>
           | (Some err, subs') \<Rightarrow>
               st\<lparr>registry := subs', invoked := invoked st @ [(cb, data)],
                  consoleErrors := consoleErrors st @ [err]\<rparr>))"

text \<open>
  \<^verbatim>\<open>Set.prototype.forEach\<close>: while the index is inside the slot list as it is now, visit
  the slot and go on. Callbacks that keep subscribing new callbacks keep the loop going,
  so the result is optional: \<open>None\<close> is a publish that never returns.
\<close>

partial_function (option) forEachFrom ::
    "'p handlers \<Rightarrow> stream \<Rightarrow> 'p \<Rightarrow> nat \<Rightarrow> 'p publish \<Rightarrow> 'p publish option" where
  "forEachFrom h ch data index st =
     (if index < length (registry st ch)
      then forEachFrom h ch data (Suc index) (visit h ch data index st)
      else Some st)"

text \<open>
  \<^verbatim>\<open>notifyWidgets(streamName, data)\<close>. \<open>Some (Inr st)\<close> is a normal return, \<open>Some (Inl e)\<close>
  an exception that reaches the caller.
\<close>

definition notifyWidgets ::
    "'p handlers \<Rightarrow> string \<Rightarrow> 'p \<Rightarrow> widgetSubscribers \<Rightarrow> (exn + 'p publish) option" where
  "notifyWidgets h streamName data subs =
     (case getProperty streamName of
        OwnSet ch \<Rightarrow>
          map_option Inr
            (forEachFrom h ch data 0 \<lparr>registry = subs, invoked = [], consoleErrors = []\<rparr>)
      | Inherited \<Rightarrow> Some (Inl TypeError)
      | Undefined \<Rightarrow> Some (Inr \<lparr>registry = subs, invoked = [], consoleErrors = []\<rparr>))"



definition unsubscriber :: "string \<Rightarrow> callback \<Rightarrow> callback \<Rightarrow> 'p handlers" where
  "unsubscriber streamName a b =
     (\<lambda>cb data subs.
        if cb = a
        then (case unsubscribeFromStream streamName b subs of
                Inl e \<Rightarrow> (Some e, subs)
              | Inr subs' \<Rightarrow> (None, subs'))
        else (None, subs))"

definition subscriber :: "string \<Rightarrow> callback \<Rightarrow> callback \<Rightarrow> 'p handlers" where
  "subscriber streamName a b =
     (\<lambda>cb data subs.
        if cb = a
        then (case subscribeToStream streamName b subs of
                Inl e \<Rightarrow> (Some e, subs)
              | Inr subs' \<Rightarrow> (None, subs'))
        else (None, subs))"


definition subscribed :: "stream \<Rightarrow> callback list \<Rightarrow> widgetSubscribers" where
  "subscribed ch cbs = emptySubscribers(ch := map Some cbs)"

subsection \<open>Formatting helpers\<close>

text \<open>
  \<^verbatim>\<open>Number.prototype.toFixed(d)\<close> as ECMA-262 defines it: the sign, then, for a magnitude
  below \<^verbatim>\<open>1e21\<close>, the integer nearest to \<open>x * 10^d\<close> (the larger one on a tie) written in
  decimal with at least one digit before the point; from \<^verbatim>\<open>1e21\<close> on, the platform's
  string conversion of the magnitude, which is in exponent notation.
\<close>

definition toFixed :: "platform \<Rightarrow> real \<Rightarrow> nat \<Rightarrow> string" where
  "toFixed P x d =
     (let s = (if x < 0 then ''-'' else '''');
          a = \<bar>x\<bar>
      in if a \<ge> 10 ^ 21 then s @ ToString P (JNum a)
         else let n = nat \<lfloor>a * 10 ^ d + 1 / 2\<rfloor>;
                  m = digits n
              in if d = 0 then s @ m
                 else let padded = replicate (d + 1 - length m) (CHR ''0'') @ m;
                          k = length padded
                      in s @ take (k - d) padded @ ''.'' @ drop (k - d) padded)"

text \<open>
  \<^verbatim>\<open>formatted.replace(/\.?0+$/, '')\<close>: the first match of the pattern is the whole run of
  zeros at the end of the string, with the point before it if there is one.
\<close>

definition stripZeros :: "string \<Rightarrow> string" where
  "stripZeros s =
     (let t = rev (dropWhile (\<lambda>c. c = CHR ''0'') (rev s))
      in if t = s then s
         else if t \<noteq> [] \<and> last t = CHR ''.'' then butlast t
         else t)"

text \<open>\<^verbatim>\<open>formatMemory\<close> (utils/formatting.js). The table \<^verbatim>\<open>units\<close>, smallest unit first.\<close>

definition units :: "(string \<times> real) list" where
  "units =
     [(''B'', 1), (''KB'', 1024), (''MB'', 1024 * 1024), (''GB'', 1024 * 1024 * 1024),
      (''TB'', 1024 * 1024 * 1024 * 1024)]"

text \<open>
  The loop \<^verbatim>\<open>for (let i = units.length - 1; i >= 0; i--)\<close>, given the units from the
  largest down; \<open>None\<close> when it falls through.
\<close>

fun unitLoop :: "platform \<Rightarrow> real \<Rightarrow> real \<Rightarrow> (string \<times> real) list \<Rightarrow> string option" where
  "unitLoop P v absValue [] = None"
| "unitLoop P v absValue ((unitName, factor) # rest) =
     (if absValue \<ge> factor
      then let scaled = absValue / factor;
               formatted = (if scaled \<ge> 100 then toFixed P scaled 0
                            else if scaled \<ge> 10 then toFixed P scaled 1
                            else toFixed P scaled 2)
           in Some ((if v < 0 then ''-'' else '''') @ stripZeros formatted @ '' '' @ unitName)
      else unitLoop P v absValue rest)"

text \<open>
  The argument is a number, or \<^verbatim>\<open>null\<close>/\<^verbatim>\<open>undefined\<close> (\<open>None\<close>). The source's comment on
  the multiplication reads \<^verbatim>\<open>// Convert KB to bytes\<close>.
\<close>

definition formatMemory :: "platform \<Rightarrow> real option \<Rightarrow> string" where
  "formatMemory P value =
     (case value of
        None \<Rightarrow> ''0 B''
      | Some v \<Rightarrow>
          if v = 0 then ''0 B''
          else let absValue = \<bar>v\<bar> * 1024
               in (case unitLoop P v absValue (rev units) of
                     Some s \<Rightarrow> s
                   | None \<Rightarrow> (if v < 0 then ''-'' else '''') @ toFixed P absValue 0 @ '' B''))"

text \<open>
  \<^verbatim>\<open>formatTime\<close>: the unit by thresholds, the number of decimals by the scaled value
  (\<^verbatim>\<open>scaled >= 10 ? 0 : scaled >= 1 ? 1 : 2\<close>) or fixed for the small units. The micro sign
  of \<^verbatim>\<open>'\<mu>s'\<close> is given by its two UTF-8 bytes.
\<close>

definition decimalsFor :: "real \<Rightarrow> nat" where
  "decimalsFor scaled = (if scaled \<ge> 10 then 0 else if scaled \<ge> 1 then 1 else 2)"

definition formatTime :: "platform \<Rightarrow> real option \<Rightarrow> string" where
  "formatTime P value =
     (case value of
        None \<Rightarrow> ''0 s''
      | Some v \<Rightarrow>
          if v = 0 then ''0 s''
          else let absValue = \<bar>v\<bar>;
                   (unit, scaled, decimals) =
                     (if absValue \<ge> 3600
                      then (''h'', absValue / 3600, decimalsFor (absValue / 3600))
                      else if absValue \<ge> 60
                      then (''m'', absValue / 60, decimalsFor (absValue / 60))
                      else if absValue \<ge> 1
                      then (''s'', absValue / 1, decimalsFor (absValue / 1))
                      else if absValue \<ge> 1 / 1000
                      then (''ms'', absValue / (1 / 1000), 3)
                      else if absValue \<ge> 1 / 1000000
                      then ([CHR 0xCE, CHR 0xBC, CHR ''s''], absValue / (1 / 1000000), 3)
                      else (''ns'', absValue / (1 / 1000000000), 0));
                   stripped = stripZeros (toFixed P scaled decimals);
                   formatted = (if stripped = ''.'' then ''0'' else stripped)
               in (if v < 0 then ''-'' else '''') @ formatted @ '' '' @ unit)"

text \<open>\<^verbatim>\<open>String.prototype.includes\<close>: the pattern occurs somewhere in the string.\<close>

fun str_includes :: "string \<Rightarrow> string \<Rightarrow> bool" where
  "str_includes [] p = (p = [])"
| "str_includes (c # cs) p = (take (length p) (c # cs) = p \<or> str_includes cs p)"

text \<open>
  \<^verbatim>\<open>getMetricType(metric, metricName)\<close>: unit hints in the metric object first, then
  patterns in the name. The two tests on a lower-cased unit, as the source writes them
  (the micro sign of \<^verbatim>\<open>'\<mu>s'\<close> is given by its two UTF-8 bytes):
\<close>

definition isTimeUnit :: "string \<Rightarrow> bool" where
  "isTimeUnit unit \<longleftrightarrow>
     str_includes unit ''second'' \<or> str_includes unit ''sec'' \<or> unit = ''s'' \<or>
     str_includes unit ''minute'' \<or> unit = ''m'' \<or>
     str_includes unit ''hour'' \<or> unit = ''h'' \<or>
     str_includes unit ''millisecond'' \<or> unit = ''ms'' \<or>
     str_includes unit ''microsecond'' \<or> unit = [CHR 0xCE, CHR 0xBC, CHR ''s''] \<or> unit = ''us'' \<or>
     str_includes unit ''nanosecond'' \<or> unit = ''ns'' \<or>
     str_includes unit ''time'' \<or> str_includes unit ''duration'' \<or>
     str_includes unit ''latency'' \<or> str_includes unit ''delay''"

definition isMemoryUnit :: "string \<Rightarrow> bool" where
  "isMemoryUnit unit \<longleftrightarrow>
     str_includes unit ''byte'' \<or> unit = ''b'' \<or>
     str_includes unit ''kilobyte'' \<or> unit = ''kb'' \<or>
     str_includes unit ''megabyte'' \<or> unit = ''mb'' \<or>
     str_includes unit ''gigabyte'' \<or> unit = ''gb'' \<or>
     str_includes unit ''terabyte'' \<or> unit = ''tb'' \<or>
     str_includes unit ''memory'' \<or> str_includes unit ''mem'' \<or>
     str_includes unit ''size'' \<or> str_includes unit ''allocated'' \<or>
     str_includes unit ''used'' \<or> str_includes unit ''buffer'' \<or>
     str_includes unit ''cache''"

definition unitFields :: "string list" where
  "unitFields = [''unit'', ''metric_unit'', ''type_hint'', ''units'']"

definition timePatterns :: "string list" where
  "timePatterns =
     [''time'', ''duration'', ''latency'', ''elapsed'', ''wait'', ''delay'', ''period'',
      ''interval'', ''seconds'', ''sec'']"

definition memoryPatterns :: "string list" where
  "memoryPatterns =
     [''memory'', ''mem'', ''bytes'', ''size'', ''allocated'', ''used'', ''buffer'', ''cache'']"

text \<open>
  The loop over \<^verbatim>\<open>unitFields\<close>: \<open>Inr (Some t)\<close> when it returns \<open>t\<close>, \<open>Inr None\<close> when it
  runs to its end. Calling \<^verbatim>\<open>toLowerCase\<close> on a truthy value that is not a string throws
  a \<^verbatim>\<open>TypeError\<close>.
\<close>

fun unitHints :: "platform \<Rightarrow> jsval \<Rightarrow> string list \<Rightarrow> exn + string option" where
  "unitHints P metric [] = Inr None"
| "unitHints P metric (field # rest) =
     (if truthy (readProp metric field)
      then (case readProp metric field of
              JStr s \<Rightarrow>
                (let unit = toLowerCase P s
                 in if isTimeUnit unit then Inr (Some ''time'')
                    else if isMemoryUnit unit then Inr (Some ''memory'')
                    else unitHints P metric rest)
            | _ \<Rightarrow> Inl TypeError)
      else unitHints P metric rest)"

definition namePatterns :: "platform \<Rightarrow> jsval \<Rightarrow> exn + string" where
  "namePatterns P metricName =
     (if truthy metricName
      then (case metricName of
              JStr s \<Rightarrow>
                (let name = toLowerCase P s
                 in if list_ex (str_includes name) timePatterns then Inr ''time''
                    else if list_ex (str_includes name) memoryPatterns then Inr ''memory''
                    else Inr ''number'')
            | _ \<Rightarrow> Inl TypeError)
      else Inr ''number'')"

definition getMetricType :: "platform \<Rightarrow> jsval \<Rightarrow> jsval \<Rightarrow> exn + string" where
  "getMetricType P metric metricName =
     (case (if truthy metric then unitHints P metric unitFields else Inr None) of
        Inl e \<Rightarrow> Inl e
      | Inr (Some t) \<Rightarrow> Inr t
      | Inr None \<Rightarrow> namePatterns P metricName)"

text \<open>
  \<^verbatim>\<open>formatValue(value, metricName, metric)\<close>. The branches for numbers of time and of
  memory type are modelled; what the function renders in its other branches (arrays,
  objects, plain numbers, strings) is the parameter \<open>elsewhere\<close>.
\<close>

definition formatValue ::
    "platform \<Rightarrow> (jsval \<Rightarrow> string) \<Rightarrow> jsval \<Rightarrow> jsval \<Rightarrow> jsval \<Rightarrow> exn + string" where
  "formatValue P elsewhere value metricName metric =
     (case value of
        JNull \<Rightarrow> Inr ''N/A''
      | JUndefined \<Rightarrow> Inr ''N/A''
      | JNum v \<Rightarrow>
          (case getMetricType P metric metricName of
             Inl e \<Rightarrow> Inl e
           | Inr metricType \<Rightarrow>
               if metricType = ''time'' then Inr (formatTime P (Some v))
               else if metricType = ''memory'' then Inr (formatMemory P (Some v))
               else Inr (elsewhere value))
      | _ \<Rightarrow> Inr (elsewhere value))"

subsection \<open>The stream caches and their message handlers\<close>

text \<open>
  The module-level stores of data/state.js: \<^verbatim>\<open>telemetryData\<close>, \<^verbatim>\<open>balanceData\<close> and
  \<^verbatim>\<open>systemData\<close> are objects used as dictionaries, \<^verbatim>\<open>openOrdersData\<close> is an array.
\<close>

record caches =
  telemetryData :: cache
  balanceData :: cache
  openOrdersData :: "jsval list"
  systemData :: cache

definition emptyCaches :: caches where
  "emptyCaches = \<lparr>telemetryData = Map.empty, balanceData = Map.empty, openOrdersData = [],
                  systemData = Map.empty\<rparr>"

text \<open>
  Each handler starts with \<^verbatim>\<open>JSON.parse(msg)\<close> inside a \<^verbatim>\<open>try\<close>. The handlers below take
  the outcome of that call: \<open>Some data\<close>, or \<open>None\<close> when it throws its \<^verbatim>\<open>SyntaxError\<close>.
  A handler returns what its \<^verbatim>\<open>catch\<close> block caught and logged, if anything, and the
  caches as the call leaves them; no exception leaves a handler, since the \<^verbatim>\<open>try\<close> spans
  its whole body.
\<close>

definition elements :: "jsval \<Rightarrow> jsval list" where
  "elements v = (case v of JArr xs \<Rightarrow> xs | _ \<Rightarrow> [])"

text \<open>
  \<^verbatim>\<open>array.forEach(f)\<close> where \<open>f\<close> updates a store and may throw: the first exception ends
  the loop and leaves the store as the earlier elements made it.
\<close>

fun forEach :: "('a \<Rightarrow> 's \<Rightarrow> exn + 's) \<Rightarrow> 'a list \<Rightarrow> 's \<Rightarrow> exn option \<times> 's" where
  "forEach f [] s = (None, s)"
| "forEach f (x # xs) s =
     (case f x s of Inl e \<Rightarrow> (Some e, s) | Inr s' \<Rightarrow> forEach f xs s')"

paragraph \<open>Telemetry\<close>

text \<open>The composite key of a metric item: \<^verbatim>\<open>`${name}|${JSON.stringify(labels)}`\<close>.\<close>

definition metricKey :: "platform \<Rightarrow> jsval \<Rightarrow> string" where
  "metricKey P item =
     ToString P (readProp item ''name'') @ ''|'' @
     JSON_stringify P (orDefault (readProp item ''labels'') (JObj []))"

text \<open>
  The body of \<^verbatim>\<open>metrics.forEach(item => ...)\<close>. (Inside the test on \<^verbatim>\<open>type\<close> the source
  has a second test for unserialized histograms; both of its branches return.)
\<close>

definition storeMetric :: "platform \<Rightarrow> jsval \<Rightarrow> cache \<Rightarrow> exn + cache" where
  "storeMetric P item td =
     (if \<not> truthy item \<or> \<not> typeof_object item then Inr td
      else let name = readProp item ''name'';
               labels = orDefault (readProp item ''labels'') (JObj []);
               last_updated = readProp item ''last_updated'';
               cached_rate = orDefault (readProp item ''cached_rate'') (JNum 0);
               metric_type = readProp item ''metric_type''
           in if \<not> truthy name \<or> \<not> truthy metric_type then Inr td
              else let type = readProp metric_type ''type'';
                       value = readProp metric_type ''value''
                   in if type \<noteq> JStr ''gauge'' \<and> type \<noteq> JStr ''counter''
                         \<and> type \<noteq> JStr ''histogram''
                      then Inr td
                      else let key = metricKey P item;
                               processedValue = (if value \<noteq> JUndefined then value else JNull);
                               converted =
                                 (case processedValue of
                                    JNum v \<Rightarrow>
                                      (case getMetricType P metric_type name of
                                         Inl e \<Rightarrow> Inl e
                                       | Inr metricType \<Rightarrow>
                                           if metricType = ''memory''
                                           then Inr (JNum (v * 1024))
                                           else Inr processedValue)
                                  | _ \<Rightarrow> Inr processedValue)
                           in (case converted of
                                 Inl e \<Rightarrow> Inl e
                               | Inr stored \<Rightarrow>
                                   Inr (assign td key
                                     (JObj [(''name'', name), (''labels'', labels),
                                            (''value'', stored), (''cached_rate'', cached_rate),
                                            (''last_updated'', last_updated),
                                            (''metric_type'', metric_type),
                                            (''key'', JStr key)]))))"

text \<open>
  The metrics array of a decoded message: the message itself when it is an array, its
  \<^verbatim>\<open>metrics\<close> property when that is one; otherwise the format is not recognized.
\<close>

definition metricsOf :: "jsval \<Rightarrow> jsval list option" where
  "metricsOf data =
     (if isArray data then Some (elements data)
      else if truthy data \<and> typeof_object data \<and> isArray (readProp data ''metrics'')
      then Some (elements (readProp data ''metrics''))
      else None)"

definition parseTelemetryMessage ::
    "platform \<Rightarrow> jsval option \<Rightarrow> caches \<Rightarrow> exn option \<times> caches" where
  "parseTelemetryMessage P decoded st =
     (case decoded of
        None \<Rightarrow> (Some SyntaxError, st)
      | Some data \<Rightarrow>
          (case metricsOf data of
             None \<Rightarrow> (None, st)
           | Some metrics \<Rightarrow>
               if length metrics = 0 then (None, st)
               else let (caught, td) = forEach (storeMetric P) metrics (telemetryData st)
                    in (caught, st\<lparr>telemetryData := td\<rparr>)))"

paragraph \<open>Balance\<close>

text \<open>The bodies of \<^verbatim>\<open>open_orders.forEach(order => ...)\<close> and \<^verbatim>\<open>balances.forEach(...)\<close>.\<close>

definition pushOrder :: "platform \<Rightarrow> jsval list \<Rightarrow> jsval \<Rightarrow> jsval list" where
  "pushOrder P orders order = (if truthy order then orders @ [spread P order] else orders)"

definition storeBalance :: "platform \<Rightarrow> jsval \<Rightarrow> cache \<Rightarrow> jsval \<Rightarrow> cache" where
  "storeBalance P last_updated bd balance =
     (if \<not> truthy balance \<or> \<not> truthy (readProp balance ''asset'') then bd
      else assign bd (ToString P (readProp balance ''asset''))
             (JObj (setField (entries P balance) ''last_updated'' last_updated)))"

text \<open>
  \<^verbatim>\<open>parseBalanceMessage\<close>. \<^verbatim>\<open>openOrdersData.length = 0\<close> runs before
  \<^verbatim>\<open>open_orders.forEach\<close> is looked up; on a value that is not an array the lookup gives
  no function and the call throws a \<^verbatim>\<open>TypeError\<close>, and so for \<^verbatim>\<open>balances\<close>.
\<close>

definition parseBalanceMessage ::
    "platform \<Rightarrow> jsval option \<Rightarrow> caches \<Rightarrow> exn option \<times> caches" where
  "parseBalanceMessage P decoded st =
     (case decoded of
        None \<Rightarrow> (Some SyntaxError, st)
      | Some data \<Rightarrow>
          if \<not> truthy data \<or> \<not> typeof_object data then (None, st)
          else let balances = orDefault (readProp data ''balances'') (JArr []);
                   open_orders = orDefault (readProp data ''open_orders'') (JArr []);
                   last_updated = readProp data ''timestamp'';
                   st1 = st\<lparr>openOrdersData := []\<rparr>
               in if \<not> isArray open_orders then (Some TypeError, st1)
                  else let st2 = st1\<lparr>openOrdersData :=
                                    foldl (pushOrder P) (openOrdersData st1)
                                      (elements open_orders)\<rparr>
                       in if \<not> isArray balances then (Some TypeError, st2)
                          else (None, st2\<lparr>balanceData :=
                                   foldl (storeBalance P last_updated) (balanceData st2)
                                     (elements balances)\<rparr>))"

paragraph \<open>System\<close>

definition storeSystemMetric :: "jsval \<Rightarrow> cache \<Rightarrow> string \<times> jsval \<Rightarrow> cache" where
  "storeSystemMetric last_updated sd kv =
     (let key = fst kv; value = snd kv;
          metric = JObj [(''name'', JStr key), (''value'', value),
                         (''last_updated'', last_updated)]
      in if key = ''type'' \<or> key = ''timestamp'' then sd
         else if isArray value then assign sd key metric
         else if typeof_object value \<and> value \<noteq> JNull then sd
         else assign sd key metric)"

definition parseSystemMessage ::
    "platform \<Rightarrow> jsval option \<Rightarrow> caches \<Rightarrow> exn option \<times> caches" where
  "parseSystemMessage P decoded st =
     (case decoded of
        None \<Rightarrow> (Some SyntaxError, st)
      | Some data \<Rightarrow>
          if \<not> truthy data \<or> \<not> typeof_object data then (None, st)
          else let last_updated = readProp data ''timestamp''
               in (None, st\<lparr>systemData :=
                      foldl (storeSystemMetric last_updated) (systemData st)
                        (entries P data)\<rparr>))"

text \<open>
  A stand-in for the platform on the plain ASCII inputs of the examples below: strings
  convert to themselves, the empty object serializes as \<^verbatim>\<open>{}\<close>, and only the letters A to
  Z change in lower case.
\<close>

definition asciiLower :: "string \<Rightarrow> string" where
  "asciiLower s =
     map (\<lambda>c. case map_of (zip ''ABCDEFGHIJKLMNOPQRSTUVWXYZ'' ''abcdefghijklmnopqrstuvwxyz'') c of
                 Some l \<Rightarrow> l | None \<Rightarrow> c) s"

definition examplePlatform :: platform where
  "examplePlatform =
     \<lparr>ToString = (\<lambda>v. case v of JStr s \<Rightarrow> s | _ \<Rightarrow> ''[object Object]''),
      JSON_stringify = (\<lambda>v. case v of JObj [] \<Rightarrow> ''{}'' | _ \<Rightarrow> ''null''),
      toLowerCase = asciiLower,
      characters = map (\<lambda>c. [c])\<rparr>"

text \<open>
  The composite keys a decoded telemetry message carries, one for each element of its
  metrics array (none when the message does not decode or has no recognized metrics
  array). A message omits a key when the key is not among them.
\<close>

definition messageKeys :: "platform \<Rightarrow> jsval option \<Rightarrow> string list" where
  "messageKeys P decoded =
     (case decoded of
        None \<Rightarrow> []
      | Some data \<Rightarrow> (case metricsOf data of None \<Rightarrow> [] | Some metrics \<Rightarrow> map (metricKey P) metrics))"

text \<open>A sequence of messages handled one after the other.\<close>

definition handleAll ::
    "(jsval option \<Rightarrow> caches \<Rightarrow> exn option \<times> caches) \<Rightarrow> jsval option list \<Rightarrow> caches \<Rightarrow> caches" where
  "handleAll handler msgs st = foldl (\<lambda>s m. snd (handler m s)) st msgs"

text \<open>
  Decoded messages used as concrete inputs below. The first is the telemetry message
  \<^verbatim>\<open>{"metrics":[{"name":"cpu_temp","labels":{},"metric_type":{"type":"gauge","value":42.5},
  "last_updated":1000}]}\<close>; the second carries one metric whose name is of memory type,
  \<^verbatim>\<open>[{"name":"memory_used","metric_type":{"type":"gauge","value":1}}]\<close>.
\<close>

definition cpuTempMessage :: jsval where
  "cpuTempMessage =
     JObj [(''metrics'', JArr [JObj [(''name'', JStr ''cpu_temp''), (''labels'', JObj []),
        (''metric_type'', JObj [(''type'', JStr ''gauge''), (''value'', JNum (85 / 2))]),
        (''last_updated'', JNum 1000)]])]"

definition memoryUsedItem :: jsval where
  "memoryUsedItem =
     JObj [(''name'', JStr ''memory_used''),
           (''metric_type'', JObj [(''type'', JStr ''gauge''), (''value'', JNum 1)])]"

text \<open>
  A metric whose unit hint is of memory type and whose name is of time type,
  \<^verbatim>\<open>{"name":"gc_latency","metric_type":{"type":"gauge","value":1,"unit":"KB"}}\<close>, the
  entry the telemetry handler stores for it, and a stand-in for the renderings of
  \<^verbatim>\<open>formatValue\<close> that are not modelled.
\<close>

definition gcLatencyItem :: jsval where
  "gcLatencyItem =
     JObj [(''name'', JStr ''gc_latency''),
           (''metric_type'',
            JObj [(''type'', JStr ''gauge''), (''value'', JNum 1), (''unit'', JStr ''KB'')])]"

definition gcLatencyEntry :: jsval where
  "gcLatencyEntry =
     JObj [(''name'', JStr ''gc_latency''), (''labels'', JObj []), (''value'', JNum 1024),
           (''cached_rate'', JNum 0), (''last_updated'', JUndefined),
           (''metric_type'',
            JObj [(''type'', JStr ''gauge''), (''value'', JNum 1), (''unit'', JStr ''KB'')]),
           (''key'', JStr ''gc_latency|{}'')]"

definition notModelled :: "jsval \<Rightarrow> string" where
  "notModelled v = ''''"

text \<open>
  The display unit that the table \<^verbatim>\<open>units\<close> gives a number of bytes: the largest unit
  that keeps the scaled value at or above one.
\<close>

definition byteUnit :: "real \<Rightarrow> string" where
  "byteUnit b =
     (if b < 1024 then ''B''
      else if b < 1024 ^ 2 then ''KB''
      else if b < 1024 ^ 3 then ''MB''
      else if b < 1024 ^ 4 then ''GB''
      else ''TB'')"

subsection \<open>Canvas zoom state\<close>




record keyEvent =
  ctrlKey :: bool
  metaKey :: bool
  key :: string










subsection \<open>AutoLayout\<close>






subsection \<open>Log widget\<close>

text \<open>
  \<^verbatim>\<open>LogStreamWidget\<close> (diodashboard/js/widgets/log-widget.js) over \<^verbatim>\<open>BaseWidget\<close>: the
  fields the retention logic reads, \<^verbatim>\<open>maxLines\<close> and \<^verbatim>\<open>logLines\<close>, and what the widget's DOM
  element shows. \<^verbatim>\<open>this.element\<close> is \<^verbatim>\<open>null\<close> until \<^verbatim>\<open>createElement\<close> has run (\<open>None\<close>);
  from then on its content node shows the lines written by the last render that ran to
  its end. A line of the view is identified with the log entry it renders; the markup is
  not modelled. A log entry is any value the log stream delivers: a string or what
  \<^verbatim>\<open>JSON.parse\<close> returned.
\<close>

record logStreamWidget =
  maxLines :: nat
  logLines :: "jsval list"
  shown :: "jsval list option"


text \<open>
  \<^verbatim>\<open>Array.prototype.slice(start)\<close> with one argument. A negative start counts from the
  end and is clipped at the front of the array; a start beyond the end gives the empty
  array. \<^verbatim>\<open>slice(-0)\<close> is \<^verbatim>\<open>slice(0)\<close>, the whole array.
\<close>

definition slice_from :: "int \<Rightarrow> 'a list \<Rightarrow> 'a list" where
  "slice_from start xs =
     (let len = int (length xs);
          k = (if start < 0 then max (len + start) 0 else min start len)
      in drop (nat k) xs)"

definition isString :: "jsval \<Rightarrow> bool" where
  "isString v = (case v of JStr s \<Rightarrow> True | _ \<Rightarrow> False)"

text \<open>
  \<^verbatim>\<open>ToString\<close> of a value that \<^verbatim>\<open>JSON.parse\<close> returned, as far as it can fail. An object with
  an own property \<^verbatim>\<open>toString\<close> has no callable \<^verbatim>\<open>toString\<close> (parsed JSON holds no function),
  and its \<^verbatim>\<open>valueOf\<close> is either such a property too or the inherited one, which returns
  the object itself: the conversion throws a \<^verbatim>\<open>TypeError\<close>. An array is joined, which
  converts each element other than \<^verbatim>\<open>null\<close>. Everything else converts.
\<close>

fun toStringThrows :: "jsval \<Rightarrow> bool" where
  "toStringThrows (JObj kvs) = (case map_of kvs ''toString'' of None \<Rightarrow> False | Some v \<Rightarrow> True)"
| "toStringThrows (JArr xs) = list_ex toStringThrows xs"
| "toStringThrows v = False"

text \<open>
  \<^verbatim>\<open>formatLogLine(logEntry)\<close>, as far as it can fail. A string is rendered as it is.
  Otherwise the entry is destructured, which throws on \<^verbatim>\<open>null\<close> and \<^verbatim>\<open>undefined\<close>, with
  the defaults \<^verbatim>\<open>level = 'INFO'\<close> and \<^verbatim>\<open>section = 'unknown'\<close>; then \<^verbatim>\<open>level.toUpperCase()\<close>
  and \<^verbatim>\<open>section.padEnd(10)\<close> throw a \<^verbatim>\<open>TypeError\<close> unless the two are strings, and the
  template converts to strings \<^verbatim>\<open>timestamp\<close> and \<^verbatim>\<open>id\<close>, when they are truthy, and
  \<^verbatim>\<open>message || logEntry\<close> (through \<^verbatim>\<open>textContent\<close>).
\<close>

definition formatLogLine :: "jsval \<Rightarrow> exn + jsval" where
  "formatLogLine logEntry =
     (case logEntry of
        JStr s \<Rightarrow> Inr logEntry
      | JNull \<Rightarrow> Inl TypeError
      | JUndefined \<Rightarrow> Inl TypeError
      | _ \<Rightarrow>
          (let timestamp = readProp logEntry ''timestamp'';
               level = orDefault (readProp logEntry ''level'') (JStr ''INFO'');
               sect = orDefault (readProp logEntry ''section'') (JStr ''unknown'');
               message = readProp logEntry ''message'';
               ident = readProp logEntry ''id'';
               escaped = (if truthy message then message else logEntry)
           in if isString level \<and> isString sect
                 \<and> \<not> (truthy timestamp \<and> toStringThrows timestamp)
                 \<and> \<not> (truthy ident \<and> toStringThrows ident)
                 \<and> \<not> toStringThrows escaped
              then Inr logEntry else Inl TypeError))"

text \<open>\<^verbatim>\<open>array.map(f)\<close> where \<open>f\<close> may throw: the first exception ends the call.\<close>

fun mapUntilThrow :: "('a \<Rightarrow> exn + 'b) \<Rightarrow> 'a list \<Rightarrow> exn + 'b list" where
  "mapUntilThrow f [] = Inr []"
| "mapUntilThrow f (x # xs) =
     (case f x of
        Inl e \<Rightarrow> Inl e
      | Inr y \<Rightarrow> (case mapUntilThrow f xs of Inl e \<Rightarrow> Inl e | Inr ys \<Rightarrow> Inr (y # ys)))"

text \<open>
  \<^verbatim>\<open>updateContent()\<close>: \<^verbatim>\<open>this.element.querySelector\<close> throws while there is no element;
  an empty buffer shows the placeholder, no lines; otherwise the lines
  \<^verbatim>\<open>this.logLines.slice(-this.maxLines)\<close> are formatted and only then written to the content
  node, so a throw while formatting leaves the view as it was. The result is the exception
  the call ends with, if any, and the widget.
\<close>

definition updateContent :: "logStreamWidget \<Rightarrow> exn option \<times> logStreamWidget" where
  "updateContent w =
     (case shown w of
        None \<Rightarrow> (Some TypeError, w)
      | Some old \<Rightarrow>
          if length (logLines w) = 0 then (None, w\<lparr>shown := Some []\<rparr>)
          else (case mapUntilThrow formatLogLine
                       (slice_from (- int (maxLines w)) (logLines w)) of
                  Inl e \<Rightarrow> (Some e, w)
                | Inr lines \<Rightarrow> (None, w\<lparr>shown := Some lines\<rparr>)))"


text \<open>
  \<^verbatim>\<open>addLogEntry(entry)\<close>: push, then trim to the last \<^verbatim>\<open>maxLines\<close> entries once the
  buffer is longer than \<^verbatim>\<open>maxLines * 2\<close>, then \<^verbatim>\<open>updateContent()\<close>, whose exception, if
  any, is the call's.
\<close>

definition addLogEntry :: "jsval \<Rightarrow> logStreamWidget \<Rightarrow> exn option \<times> logStreamWidget" where
  "addLogEntry entry w =
     (let pushed = logLines w @ [entry]
      in if length pushed > maxLines w * 2
         then updateContent (w\<lparr>logLines := slice_from (- int (maxLines w)) pushed\<rparr>)
         else updateContent (w\<lparr>logLines := pushed\<rparr>))"


section \<open>Properties\<close>

subsection \<open>Telemetry cache: last known good\<close>

lemma storeMetric_other_key:
  assumes "storeMetric P item td = Inr td'" and "k \<noteq> metricKey P item"
  shows "td' k = td k"
  using assms
  by (auto simp: storeMetric_def Let_def assign_def split: if_splits sum.splits jsval.splits)

lemma forEach_storeMetric_other_key:
  assumes "forEach (storeMetric P) metrics td = (caught, td')"
    and "k \<notin> set (map (metricKey P) metrics)"
  shows "td' k = td k"
  using assms
proof (induction metrics arbitrary: td)
  case Nil
  then show ?case by simp
next
  case (Cons item metrics)
  show ?case
  proof (cases "storeMetric P item td")
    case (Inl e)
    then show ?thesis using Cons.prems by simp
  next
    case (Inr td1)
    then have "td1 k = td k"
      using Cons.prems(2) storeMetric_other_key by auto
    moreover have "td' k = td1 k"
      using Cons.IH [of td1] Cons.prems Inr by simp
    ultimately show ?thesis by simp
  qed
qed

lemma parseTelemetryMessage_other_key:
  assumes "k \<notin> set (messageKeys P decoded)"
  shows "telemetryData (snd (parseTelemetryMessage P decoded st)) k = telemetryData st k"
proof (cases decoded)
  case None
  then show ?thesis by (simp add: parseTelemetryMessage_def)
next
  case (Some data)
  show ?thesis
  proof (cases "metricsOf data")
    case None
    then show ?thesis using Some by (simp add: parseTelemetryMessage_def)
  next
    case (Some metrics)
    obtain caught td where r: "forEach (storeMetric P) metrics (telemetryData st) = (caught, td)"
      by (cases "forEach (storeMetric P) metrics (telemetryData st)")
    have "k \<notin> set (map (metricKey P) metrics)"
      using assms \<open>decoded = Some data\<close> Some by (simp add: messageKeys_def)
    from forEach_storeMetric_other_key [OF r this] show ?thesis
      using \<open>decoded = Some data\<close> Some r by (simp add: parseTelemetryMessage_def)
  qed
qed

text \<open>
  C1. The telemetry cache is last-known-good: a key stored in \<^verbatim>\<open>telemetryData\<close> is still
  there, with the entry last stored for it, after any sequence of later messages handled
  by \<^verbatim>\<open>parseTelemetryMessage\<close> that omit the key. Such a message may carry other metrics,
  an empty metrics array, an unrecognized shape, or not decode at all.
\<close>

theorem telemetry_last_known_good:
  assumes "telemetryData st k = Some entry"
    and "\<forall>m \<in> set later. k \<notin> set (messageKeys P m)"
  shows "telemetryData (handleAll (parseTelemetryMessage P) later st) k = Some entry"
  using assms
proof (induction later arbitrary: st)
  case Nil
  then show ?case by (simp add: handleAll_def)
next
  case (Cons m later)
  have "telemetryData (snd (parseTelemetryMessage P m st)) k = Some entry"
    using Cons.prems by (simp add: parseTelemetryMessage_other_key)
  from Cons.IH [OF this] Cons.prems(2) show ?case by (simp add: handleAll_def)
qed

theorem telemetry_last_known_good_witness:
  "telemetryData
     (handleAll (parseTelemetryMessage examplePlatform)
        [Some (JObj [(''metrics'', JArr [])]), None]
        (snd (parseTelemetryMessage examplePlatform (Some cpuTempMessage) emptyCaches)))
     ''cpu_temp|{}''
   = Some (JObj [(''name'', JStr ''cpu_temp''), (''labels'', JObj []),
        (''value'', JNum (85 / 2)), (''cached_rate'', JNum 0), (''last_updated'', JNum 1000),
        (''metric_type'', JObj [(''type'', JStr ''gauge''), (''value'', JNum (85 / 2))]),
        (''key'', JStr ''cpu_temp|{}'')])"
proof -
  have stored: "telemetryData
      (snd (parseTelemetryMessage examplePlatform (Some cpuTempMessage) emptyCaches))
      ''cpu_temp|{}''
    = Some (JObj [(''name'', JStr ''cpu_temp''), (''labels'', JObj []),
        (''value'', JNum (85 / 2)), (''cached_rate'', JNum 0), (''last_updated'', JNum 1000),
        (''metric_type'', JObj [(''type'', JStr ''gauge''), (''value'', JNum (85 / 2))]),
        (''key'', JStr ''cpu_temp|{}'')])"
    by code_simp
  have omit: "\<forall>m \<in> set [Some (JObj [(''metrics'', JArr [])]), None].
      ''cpu_temp|{}'' \<notin> set (messageKeys examplePlatform m)"
    by (simp add: messageKeys_def metricsOf_def elements_def)
  from telemetry_last_known_good [OF stored omit] show ?thesis .
qed

subsection \<open>Balance: the order list is rebuilt from each message\<close>

lemma foldl_pushOrder:
  "foldl (pushOrder P) acc orders = acc @ map (spread P) (filter truthy orders)"
  by (induction orders arbitrary: acc) (simp_all add: pushOrder_def)

lemma spread_object: "spread P (JObj kvs) = JObj kvs"
  by (simp add: spread_def)

lemma map_spread_objects:
  "\<forall>order \<in> set orders. \<exists>kvs. order = JObj kvs \<Longrightarrow>
   map (spread P) (filter truthy orders) = orders"
  by (induction orders) (auto simp: spread_object)

text \<open>
  C2 as stated fails: the loop pushes an order only \<^verbatim>\<open>if (order)\<close>. For the message
  \<^verbatim>\<open>{"open_orders":[null,{"symbol":"BTC"}]}\<close> the list afterwards holds the one object and
  so differs from the message's \<^verbatim>\<open>open_orders\<close> array.
\<close>

theorem orders_replaced_counterexample:
  "openOrdersData (snd (parseBalanceMessage examplePlatform
      (Some (JObj [(''open_orders'', JArr [JNull, JObj [(''symbol'', JStr ''BTC'')]])]))
      emptyCaches))
   = [JObj [(''symbol'', JStr ''BTC'')]]
   \<and> [JObj [(''symbol'', JStr ''BTC'')]] \<noteq> [JNull, JObj [(''symbol'', JStr ''BTC'')]]"
  by (simp add: parseBalanceMessage_def orDefault_def elements_def pushOrder_def spread_def
      storeBalance_def emptyCaches_def)

text \<open>
  C2, amended. For every balance message that decodes to an object (or array) and whose
  \<^verbatim>\<open>open_orders\<close> and \<^verbatim>\<open>balances\<close> are each an array or missing, after
  \<^verbatim>\<open>parseBalanceMessage\<close> the list \<^verbatim>\<open>openOrdersData\<close> holds a copy of each truthy element of
  the message's \<^verbatim>\<open>open_orders\<close> array, in order, and nothing else: no element of an earlier
  message is carried over, falsy elements such as \<^verbatim>\<open>null\<close> are skipped, and a missing
  \<^verbatim>\<open>open_orders\<close> leaves the list empty. When every element of \<^verbatim>\<open>open_orders\<close> is an object,
  the list equals that array exactly. A message that does not decode, or decodes to
  something that is not an object, leaves the list as it was.
\<close>

theorem orders_replaced_wholesale:
  "(truthy data \<and> typeof_object data
      \<and> (isArray (readProp data ''open_orders'') \<or> readProp data ''open_orders'' = JUndefined)
      \<and> (isArray (readProp data ''balances'') \<or> readProp data ''balances'' = JUndefined)
    \<longrightarrow>
      openOrdersData (snd (parseBalanceMessage P (Some data) st))
        = map (spread P) (filter truthy (elements (readProp data ''open_orders'')))
      \<and> (readProp data ''open_orders'' = JArr orders
           \<and> (\<forall>order \<in> set orders. \<exists>kvs. order = JObj kvs) \<longrightarrow>
         openOrdersData (snd (parseBalanceMessage P (Some data) st)) = orders))
   \<and> (\<not> (truthy data \<and> typeof_object data) \<longrightarrow>
      openOrdersData (snd (parseBalanceMessage P (Some data) st)) = openOrdersData st)
   \<and> openOrdersData (snd (parseBalanceMessage P None st)) = openOrdersData st"
proof -
  have main: "openOrdersData (snd (parseBalanceMessage P (Some data) st))
      = map (spread P) (filter truthy (elements (readProp data ''open_orders'')))"
    if "truthy data \<and> typeof_object data"
      "isArray (readProp data ''open_orders'') \<or> readProp data ''open_orders'' = JUndefined"
  proof (cases "readProp data ''open_orders''")
    case (JArr xs)
    then show ?thesis using that(1)
      by (simp add: parseBalanceMessage_def Let_def orDefault_def elements_def foldl_pushOrder)
  next
    case JUndefined
    then show ?thesis using that(1)
      by (simp add: parseBalanceMessage_def Let_def orDefault_def elements_def)
  qed (use that(2) in simp_all)
  have "openOrdersData (snd (parseBalanceMessage P (Some data) st)) = orders"
    if "truthy data \<and> typeof_object data" "readProp data ''open_orders'' = JArr orders"
      "\<forall>order \<in> set orders. \<exists>kvs. order = JObj kvs"
    using main [OF that(1)] that(2) map_spread_objects [OF that(3)]
    by (simp add: elements_def)
  moreover have "openOrdersData (snd (parseBalanceMessage P (Some data) st)) = openOrdersData st"
    if "\<not> (truthy data \<and> typeof_object data)"
    using that by (auto simp: parseBalanceMessage_def)
  moreover have "openOrdersData (snd (parseBalanceMessage P None st)) = openOrdersData st"
    by (simp add: parseBalanceMessage_def)
  ultimately show ?thesis using main by blast
qed

theorem orders_replaced_wholesale_witness:
  "openOrdersData (snd (parseBalanceMessage examplePlatform
      (Some (JObj [(''open_orders'', JArr [JObj [(''symbol'', JStr ''ETH'')]])]))
      (emptyCaches\<lparr>openOrdersData := [JObj [(''symbol'', JStr ''BTC'')]]\<rparr>)))
   = [JObj [(''symbol'', JStr ''ETH'')]]
   \<and> openOrdersData (snd (parseBalanceMessage examplePlatform (Some (JNum 5))
      (emptyCaches\<lparr>openOrdersData := [JObj [(''symbol'', JStr ''BTC'')]]\<rparr>)))
   = [JObj [(''symbol'', JStr ''BTC'')]]"
proof -
  let ?st = "emptyCaches\<lparr>openOrdersData := [JObj [(''symbol'', JStr ''BTC'')]]\<rparr>"
  from orders_replaced_wholesale [of "JObj [(''open_orders'', JArr [JObj [(''symbol'', JStr ''ETH'')]])]"
      examplePlatform ?st "[JObj [(''symbol'', JStr ''ETH'')]]"]
  have one: "openOrdersData (snd (parseBalanceMessage examplePlatform
      (Some (JObj [(''open_orders'', JArr [JObj [(''symbol'', JStr ''ETH'')]])])) ?st))
      = [JObj [(''symbol'', JStr ''ETH'')]]"
    by (simp add: elements_def spread_def)
  from orders_replaced_wholesale [of "JNum 5" examplePlatform ?st]
  have two: "openOrdersData (snd (parseBalanceMessage examplePlatform (Some (JNum 5)) ?st))
      = [JObj [(''symbol'', JStr ''BTC'')]]"
    by (simp add: emptyCaches_def)
  from one two show ?thesis by simp
qed

subsection \<open>Fan-out: failure isolation and iteration order\<close>

lemma Set_values_Nil [simp]: "Set_values [] = []"
  by (simp add: Set_values_def)

lemma Set_values_Cons [simp]:
  "Set_values (e # s) = (case e of None \<Rightarrow> Set_values s | Some v \<Rightarrow> v # Set_values s)"
  by (simp add: Set_values_def split: option.splits)

lemma Set_values_append [simp]: "Set_values (s @ t) = Set_values s @ Set_values t"
  by (simp add: Set_values_def)

lemma Set_values_drop_step:
  "i < length s \<Longrightarrow>
   Set_values (drop i s) = (case s ! i of None \<Rightarrow> [] | Some v \<Rightarrow> [v]) @ Set_values (drop (Suc i) s)"
  by (simp add: Cons_nth_drop_Suc [symmetric] split: option.splits)

lemma Set_values_mem: "v \<in> set (Set_values s) \<longleftrightarrow> Some v \<in> set s"
  by (induction s) (auto split: option.splits)

lemma Set_delete_idem [simp]: "Set_delete b (Set_delete b s) = Set_delete b s"
  by (simp add: Set_delete_def)

lemma Set_delete_drop: "drop n (Set_delete b s) = Set_delete b (drop n s)"
  by (simp add: Set_delete_def drop_map)

lemma length_Set_delete [simp]: "length (Set_delete b s) = length s"
  by (simp add: Set_delete_def)

lemma Set_values_delete: "Set_values (Set_delete b s) = filter (\<lambda>v. v \<noteq> b) (Set_values s)"
  by (induction s) (auto simp: Set_delete_def split: option.splits)

lemma visit_slot:
  assumes "\<forall>cb subs1. s ! i = Some cb \<longrightarrow> subs1 ch = s \<longrightarrow> snd (h cb d subs1) ch = s'"
    and "s ! i = None \<longrightarrow> s' = s"
    and "registry st ch = s"
  shows "registry (visit h ch d i st) ch = s'
     \<and> invoked (visit h ch d i st)
         = invoked st @ map (\<lambda>cb. (cb, d)) (case s ! i of None \<Rightarrow> [] | Some v \<Rightarrow> [v])"
proof (cases "s ! i")
  case None
  then show ?thesis using assms by (simp add: visit_def)
next
  case (Some cb)
  obtain e subs' where r: "h cb d (registry st) = (e, subs')" by (cases "h cb d (registry st)")
  then have "subs' ch = s'" using assms(1,3) Some by (metis snd_conv)
  then show ?thesis using Some r assms(3) by (cases e) (simp_all add: visit_def)
qed

lemma forEachFrom_frame:
  assumes "\<forall>cb subs1. subs1 ch = s \<longrightarrow> snd (h cb d subs1) ch = s"
    and "registry st ch = s"
  shows "\<exists>st'. forEachFrom h ch d i st = Some st' \<and> registry st' ch = s
     \<and> invoked st' = invoked st @ map (\<lambda>cb. (cb, d)) (Set_values (drop i s))"
  using assms(2)
proof (induction "length s - i" arbitrary: i st)
  case 0
  then show ?case by (subst forEachFrom.simps) simp
next
  case (Suc n)
  then have i: "i < length s" by simp
  from visit_slot [of s i ch h d s st] assms(1) Suc.prems
  have v: "registry (visit h ch d i st) ch = s"
    "invoked (visit h ch d i st)
       = invoked st @ map (\<lambda>cb. (cb, d)) (case s ! i of None \<Rightarrow> [] | Some v \<Rightarrow> [v])"
    by simp_all
  have "n = length s - Suc i" using Suc.hyps(2) by simp
  from Suc.hyps(1) [OF this v(1)] obtain st' where
    st': "forEachFrom h ch d (Suc i) (visit h ch d i st) = Some st'" "registry st' ch = s"
    "invoked st' = invoked (visit h ch d i st) @ map (\<lambda>cb. (cb, d)) (Set_values (drop (Suc i) s))"
    by blast
  have "forEachFrom h ch d i st = Some st'"
    using i Suc.prems st'(1) by (subst forEachFrom.simps) simp
  then show ?case using st' v i by (simp add: Set_values_drop_step)
qed

lemma forEachFrom_prefix:
  assumes "\<forall>cb \<in> set (Set_values (take k s)). \<forall>subs1. subs1 ch = s \<longrightarrow> snd (h cb d subs1) ch = s"
    and "registry st ch = s" and "k \<le> length s"
  shows "\<exists>st'. forEachFrom h ch d 0 st = forEachFrom h ch d k st' \<and> registry st' ch = s
     \<and> invoked st' = invoked st @ map (\<lambda>cb. (cb, d)) (Set_values (take k s))"
  using assms(1,3)
proof (induction k)
  case 0
  then show ?case using assms(2) by auto
next
  case (Suc k)
  then have k: "k < length s" by simp
  have tk: "take (Suc k) s = take k s @ [s ! k]"
    using k by (simp add: take_Suc_conv_app_nth)
  have "\<forall>cb \<in> set (Set_values (take k s)). \<forall>subs1. subs1 ch = s \<longrightarrow> snd (h cb d subs1) ch = s"
    using Suc.prems(1) by (simp add: tk)
  from Suc.IH [OF this] k obtain st1 where
    st1: "forEachFrom h ch d 0 st = forEachFrom h ch d k st1" "registry st1 ch = s"
    "invoked st1 = invoked st @ map (\<lambda>cb. (cb, d)) (Set_values (take k s))"
    by auto
  have fr: "\<forall>cb subs1. s ! k = Some cb \<longrightarrow> subs1 ch = s \<longrightarrow> snd (h cb d subs1) ch = s"
    using Suc.prems(1) by (auto simp: tk)
  from visit_slot [of s k ch h d s st1] fr st1(2)
  have v: "registry (visit h ch d k st1) ch = s"
    "invoked (visit h ch d k st1)
       = invoked st1 @ map (\<lambda>cb. (cb, d)) (case s ! k of None \<Rightarrow> [] | Some v \<Rightarrow> [v])"
    by simp_all
  have "forEachFrom h ch d k st1 = forEachFrom h ch d (Suc k) (visit h ch d k st1)"
    using k st1(2) by (subst forEachFrom.simps) simp
  then show ?case using st1 v
    by (intro exI [of _ "visit h ch d k st1"]) (simp add: tk split: option.splits)
qed

lemma own_telemetry: "ownProperty ''telemetry'' = Some Telemetry"
  by (simp add: ownProperty_def)

lemma getProperty_telemetry: "getProperty ''telemetry'' = OwnSet Telemetry"
  by (simp add: getProperty_def ownProperty_def)








text \<open>
  One callback \<open>a\<close> changes the stream's subscriber set by \<open>f\<close>, every other callback
  leaves it alone: the callbacks before \<open>a\<close> and \<open>a\<close> itself run on the set as it was, the
  rest of the walk is over the changed set.
\<close>

lemma notifyWidgets_one_change:
  assumes own: "ownProperty streamName = Some ch"
    and s: "subs ch = xs @ Some a # ys" and first: "Some a \<notin> set xs"
    and others: "\<forall>cb subs1. cb \<noteq> a \<longrightarrow> snd (h cb data subs1) ch = subs1 ch"
    and change: "\<forall>subs1. snd (h a data subs1) ch = f (subs1 ch)"
    and idem: "f (f (subs ch)) = f (subs ch)"
  shows "\<exists>st. notifyWidgets h streamName data subs = Some (Inr st)
      \<and> invoked st
          = map (\<lambda>cb. (cb, data))
              (Set_values xs @ a # Set_values (drop (Suc (length xs)) (f (subs ch))))"
proof -
  let ?st0 = "\<lparr>registry = subs, invoked = [], consoleErrors = []\<rparr> :: 'a publish"
  let ?s = "subs ch" and ?k = "length xs"
  have tk: "take ?k ?s = xs" and nth: "?s ! ?k = Some a" and k: "?k < length ?s"
    by (simp_all add: s)
  have "\<forall>cb \<in> set (Set_values (take ?k ?s)).
      \<forall>subs1. subs1 ch = ?s \<longrightarrow> snd (h cb data subs1) ch = ?s"
    using others first by (auto simp: tk Set_values_mem)
  from forEachFrom_prefix [where k = ?k and s = ?s and ch = ch and h = h and d = data
      and st = ?st0] this k obtain st1 where
    st1: "forEachFrom h ch data 0 ?st0 = forEachFrom h ch data ?k st1" "registry st1 ch = ?s"
    "invoked st1 = map (\<lambda>cb. (cb, data)) (Set_values xs)"
    by (auto simp: tk)
  let ?s2 = "f ?s" and ?st2 = "visit h ch data ?k st1"
  from visit_slot [of ?s ?k ch h data ?s2 st1] change st1(2) nth
  have v: "registry ?st2 ch = ?s2" "invoked ?st2 = invoked st1 @ [(a, data)]"
    by simp_all
  have step: "forEachFrom h ch data ?k st1 = forEachFrom h ch data (Suc ?k) ?st2"
    using k st1(2) by (subst forEachFrom.simps) simp
  have "\<forall>cb subs1. subs1 ch = ?s2 \<longrightarrow> snd (h cb data subs1) ch = ?s2"
    using others change idem by metis
  from forEachFrom_frame [where ch = ch and s = ?s2 and h = h and d = data
      and st = ?st2 and i = "Suc ?k"] this v(1) obtain st3 where
    st3: "forEachFrom h ch data (Suc ?k) ?st2 = Some st3"
    "invoked st3 = invoked ?st2 @ map (\<lambda>cb. (cb, data)) (Set_values (drop (Suc ?k) ?s2))"
    by auto
  have "notifyWidgets h streamName data subs = Some (Inr st3)"
    using own st1(1) step st3(1) by (simp add: notifyWidgets_def getProperty_def)
  then show ?thesis using st3(2) v(2) st1(3) by simp
qed

text \<open>
  C4 as stated fails: the publish walks the live \<^verbatim>\<open>Set\<close>. With callbacks 1 and 2
  subscribed to telemetry, where callback 1 unsubscribes callback 2, the publish invokes
  callback 1 only, although callback 2 was subscribed when the publish began; and where
  callback 1 subscribes a callback 3, callback 3 is invoked by that same publish.
\<close>

theorem notifyWidgets_snapshot_counterexample:
  "map_option (map_sum id invoked)
     (notifyWidgets (unsubscriber ''telemetry'' 1 2) ''telemetry'' (7::nat)
        (subscribed Telemetry [1, 2]))
   = Some (Inr [(1, 7)])
   \<and> map_option (map_sum id invoked)
     (notifyWidgets (subscriber ''telemetry'' 1 3) ''telemetry'' (7::nat)
        (subscribed Telemetry [1, 2]))
   = Some (Inr [(1, 7), (2, 7), (3, 7)])"
  by (simp add: notifyWidgets_def getProperty_telemetry forEachFrom.simps visit_def
      unsubscriber_def unsubscribeFromStream_def subscriber_def subscribeToStream_def
      subscribed_def emptySubscribers_def Set_delete_def Set_add_def)

text \<open>
  C4, amended. A publish iterates the live subscriber set of the stream, not a snapshot.
  Let callback \<open>a\<close> be subscribed, and let no callback other than \<open>a\<close> change that stream's
  set during the publish. If \<open>a\<close> unsubscribes a callback \<open>b\<close>, the publish invokes, in
  subscription order, the callbacks subscribed when it began, leaving \<open>b\<close> out unless its
  turn came before \<open>a\<close>'s: a callback unsubscribed by an earlier callback is not invoked.
  If \<open>a\<close> subscribes a callback \<open>b\<close>, the publish invokes the callbacks subscribed when it
  began and then, if \<open>b\<close> was not among them, \<open>b\<close> as well.
\<close>

theorem notifyWidgets_live_iteration:
  assumes own: "ownProperty streamName = Some ch"
    and s: "subs ch = xs @ Some a # ys" and first: "Some a \<notin> set xs"
    and others: "\<forall>cb subs1. cb \<noteq> a \<longrightarrow> snd (h cb data subs1) ch = subs1 ch"
  shows "((\<forall>subs1. snd (h a data subs1) ch = Set_delete b (subs1 ch)) \<longrightarrow>
          (\<exists>st. notifyWidgets h streamName data subs = Some (Inr st)
             \<and> invoked st = map (\<lambda>cb. (cb, data))
                 (Set_values xs @ a # filter (\<lambda>v. v \<noteq> b) (Set_values ys))
             \<and> (b \<noteq> a \<and> Some b \<notin> set xs \<longrightarrow> b \<notin> fst ` set (invoked st))))
     \<and> ((\<forall>subs1. snd (h a data subs1) ch = Set_add b (subs1 ch)) \<longrightarrow>
          (\<exists>st. notifyWidgets h streamName data subs = Some (Inr st)
             \<and> invoked st = map (\<lambda>cb. (cb, data))
                 (Set_values xs @ a # Set_values ys
                    @ (if Some b \<in> set (subs ch) then [] else [b]))))"
proof (intro conjI impI)
  assume unsub: "\<forall>subs1. snd (h a data subs1) ch = Set_delete b (subs1 ch)"
  have dr: "drop (Suc (length xs)) (Set_delete b (subs ch)) = Set_delete b ys"
    by (simp add: Set_delete_drop s)
  have idem: "Set_delete b (Set_delete b (subs ch)) = Set_delete b (subs ch)"
    by simp
  from notifyWidgets_one_change [where f = "Set_delete b" and h = h and a = a
      and streamName = streamName and data = data and subs = subs and ch = ch
      and xs = xs and ys = ys, OF own s first others unsub idem]
  obtain st where
    st: "notifyWidgets h streamName data subs = Some (Inr st)"
    "invoked st = map (\<lambda>cb. (cb, data))
       (Set_values xs @ a # filter (\<lambda>v. v \<noteq> b) (Set_values ys))"
    by (auto simp: dr Set_values_delete)
  have "b \<notin> fst ` set (invoked st)" if "b \<noteq> a" "Some b \<notin> set xs"
    using that by (auto simp: st(2) Set_values_mem)
  then show "\<exists>st. notifyWidgets h streamName data subs = Some (Inr st)
      \<and> invoked st = map (\<lambda>cb. (cb, data))
          (Set_values xs @ a # filter (\<lambda>v. v \<noteq> b) (Set_values ys))
      \<and> (b \<noteq> a \<and> Some b \<notin> set xs \<longrightarrow> b \<notin> fst ` set (invoked st))"
    using st by blast
next
  assume sub: "\<forall>subs1. snd (h a data subs1) ch = Set_add b (subs1 ch)"
  have dr: "drop (Suc (length xs)) (Set_add b (subs ch))
      = ys @ (if Some b \<in> set (subs ch) then [] else [Some b])"
    by (simp add: Set_add_def s)
  have idem: "Set_add b (Set_add b (subs ch)) = Set_add b (subs ch)"
    by (simp add: Set_add_def)
  from notifyWidgets_one_change [where f = "Set_add b" and h = h and a = a
      and streamName = streamName and data = data and subs = subs and ch = ch
      and xs = xs and ys = ys, OF own s first others sub idem]
  show "\<exists>st. notifyWidgets h streamName data subs = Some (Inr st)
      \<and> invoked st = map (\<lambda>cb. (cb, data))
          (Set_values xs @ a # Set_values ys
             @ (if Some b \<in> set (subs ch) then [] else [b]))"
    by (auto simp: dr)
qed

theorem notifyWidgets_live_iteration_witness:
  "(\<exists>st. notifyWidgets (unsubscriber ''telemetry'' 1 2) ''telemetry'' (7::nat)
            (subscribed Telemetry [1, 2, 3]) = Some (Inr st)
       \<and> invoked st = [(1, 7), (3, 7)] \<and> 2 \<notin> fst ` set (invoked st))
   \<and> (\<exists>st. notifyWidgets (subscriber ''telemetry'' 1 4) ''telemetry'' (7::nat)
            (subscribed Telemetry [1, 2, 3]) = Some (Inr st)
       \<and> invoked st = [(1, 7), (2, 7), (3, 7), (4, 7)])"
proof -
  have s: "subscribed Telemetry [1, 2, 3] Telemetry = [] @ Some 1 # [Some 2, Some 3]"
    by (simp add: subscribed_def)
  have others: "\<forall>cb subs1. cb \<noteq> 1 \<longrightarrow>
      snd (unsubscriber ''telemetry'' 1 2 cb (7::nat) subs1) Telemetry = subs1 Telemetry"
    by (simp add: unsubscriber_def)
  have unsub: "\<forall>subs1. snd (unsubscriber ''telemetry'' 1 2 1 (7::nat) subs1) Telemetry
      = Set_delete 2 (subs1 Telemetry)"
    by (simp add: unsubscriber_def unsubscribeFromStream_def getProperty_telemetry)
  have others': "\<forall>cb subs1. cb \<noteq> 1 \<longrightarrow>
      snd (subscriber ''telemetry'' 1 4 cb (7::nat) subs1) Telemetry = subs1 Telemetry"
    by (simp add: subscriber_def)
  have sub: "\<forall>subs1. snd (subscriber ''telemetry'' 1 4 1 (7::nat) subs1) Telemetry
      = Set_add 4 (subs1 Telemetry)"
    by (simp add: subscriber_def subscribeToStream_def getProperty_telemetry)
  from notifyWidgets_live_iteration [where streamName = "''telemetry''" and ch = Telemetry
      and h = "unsubscriber ''telemetry'' 1 2" and data = "7::nat" and a = 1 and b = 2
      and subs = "subscribed Telemetry [1, 2, 3]" and xs = "[]" and ys = "[Some 2, Some 3]"]
    own_telemetry s others unsub
  have one: "\<exists>st. notifyWidgets (unsubscriber ''telemetry'' 1 2) ''telemetry'' (7::nat)
            (subscribed Telemetry [1, 2, 3]) = Some (Inr st)
       \<and> invoked st = [(1, 7), (3, 7)] \<and> 2 \<notin> fst ` set (invoked st)"
    by simp
  from notifyWidgets_live_iteration [where streamName = "''telemetry''" and ch = Telemetry
      and h = "subscriber ''telemetry'' 1 4" and data = "7::nat" and a = 1 and b = 4
      and subs = "subscribed Telemetry [1, 2, 3]" and xs = "[]" and ys = "[Some 2, Some 3]"]
    own_telemetry s others' sub
  have two: "\<exists>st. notifyWidgets (subscriber ''telemetry'' 1 4) ''telemetry'' (7::nat)
            (subscribed Telemetry [1, 2, 3]) = Some (Inr st)
       \<and> invoked st = [(1, 7), (2, 7), (3, 7), (4, 7)]"
    by (simp add: subscribed_def)
  from one two show ?thesis by blast
qed

subsection \<open>Decode faults\<close>

text \<open>A message that \<^verbatim>\<open>JSON.parse\<close> rejects is dropped by each handler with the caches as they were.\<close>

lemma decode_failure_leaves_caches:
  "parseTelemetryMessage P None st = (Some SyntaxError, st)"
  "parseBalanceMessage P None st = (Some SyntaxError, st)"
  "parseSystemMessage P None st = (Some SyntaxError, st)"
  by (simp_all add: parseTelemetryMessage_def parseBalanceMessage_def parseSystemMessage_def)

text \<open>
  C5 at the input where the code departs from it. The balance message
  \<^verbatim>\<open>{"open_orders": 5}\<close> has an unexpected shape: \<^verbatim>\<open>open_orders.forEach\<close> throws a
  \<^verbatim>\<open>TypeError\<close>, which the \<^verbatim>\<open>catch\<close> block logs as an error parsing the message. By then
  \<^verbatim>\<open>openOrdersData.length = 0\<close> has run, so the order list the caches held is gone: the
  message is dropped, but not without a change of state.
\<close>

theorem unexpected_shape_changes_caches:
  "parseBalanceMessage examplePlatform (Some (JObj [(''open_orders'', JNum 5)]))
     (emptyCaches\<lparr>openOrdersData := [JObj [(''symbol'', JStr ''BTC'')]]\<rparr>)
   = (Some TypeError, emptyCaches)
   \<and> emptyCaches \<noteq> emptyCaches\<lparr>openOrdersData := [JObj [(''symbol'', JStr ''BTC'')]]\<rparr>"
proof -
  have "openOrdersData emptyCaches
      \<noteq> openOrdersData (emptyCaches\<lparr>openOrdersData := [JObj [(''symbol'', JStr ''BTC'')]]\<rparr>)"
    by (simp add: emptyCaches_def)
  then have "emptyCaches \<noteq> emptyCaches\<lparr>openOrdersData := [JObj [(''symbol'', JStr ''BTC'')]]\<rparr>"
    by metis
  then show ?thesis
    by (simp add: parseBalanceMessage_def orDefault_def emptyCaches_def)
qed


theorem unexpected_shape_changes_caches_witness:
  "fst (parseBalanceMessage examplePlatform (Some (JObj [(''open_orders'', JNum 5)]))
     (emptyCaches\<lparr>openOrdersData := [JObj [(''symbol'', JStr ''BTC'')]]\<rparr>)) = Some TypeError
   \<and> openOrdersData (snd (parseBalanceMessage examplePlatform
       (Some (JObj [(''open_orders'', JNum 5)]))
       (emptyCaches\<lparr>openOrdersData := [JObj [(''symbol'', JStr ''BTC'')]]\<rparr>))) = []"
  using unexpected_shape_changes_caches by (simp add: emptyCaches_def)

subsection \<open>Canvas zoom: where the bounds are enforced\<close>














subsection \<open>AutoLayout: no two rectangles overlap\<close>







subsection \<open>Log widget: bounded retention\<close>





text \<open>Rendering reads the buffer and writes the view only.\<close>

lemma updateContent_buffer [simp]:
  "logLines (snd (updateContent w)) = logLines w"
  "maxLines (snd (updateContent w)) = maxLines w"
  by (auto simp: updateContent_def split: option.splits sum.splits)






















text \<open>
  An entry whose \<^verbatim>\<open>level\<close> is not a string, such as \<^verbatim>\<open>{"level": 5}\<close>, is kept in the
  buffer like any other, but the render throws and the view stays as it was.
\<close>

lemma addLogEntry_render_throws:
  "addLogEntry (JObj [(''level'', JNum 5)])
     \<lparr>maxLines = 50, logLines = [JStr ''a''], shown = Some [JStr ''a'']\<rparr>
   = (Some TypeError,
      \<lparr>maxLines = 50, logLines = [JStr ''a'', JObj [(''level'', JNum 5)]],
       shown = Some [JStr ''a'']\<rparr>)"
  by (simp add: addLogEntry_def updateContent_def slice_from_def formatLogLine_def
      orDefault_def isString_def)

subsection \<open>Memory values: kibibytes in, scaled twice when of memory type at both ends\<close>

lemma formatMemory_unit:
  assumes "v \<noteq> 0"
  shows "\<exists>ds. formatMemory P (Some v)
      = (if v < 0 then ''-'' else '''') @ ds @ '' '' @ byteUnit (\<bar>v\<bar> * 1024)"
proof -
  define a where "a = \<bar>v\<bar> * 1024"
  have fm: "formatMemory P (Some v)
      = (case unitLoop P v a (rev units) of Some s \<Rightarrow> s
         | None \<Rightarrow> (if v < 0 then ''-'' else '''') @ toFixed P a 0 @ '' B'')"
    unfolding formatMemory_def Let_def a_def using assms by simp
  have ru: "rev units = [(''TB'', 1024 * 1024 * 1024 * 1024), (''GB'', 1024 * 1024 * 1024),
      (''MB'', 1024 * 1024), (''KB'', 1024), (''B'', 1)]"
    by (simp add: units_def)
  consider "a \<ge> 1024 ^ 4" | "a < 1024 ^ 4" "a \<ge> 1024 ^ 3" | "a < 1024 ^ 3" "a \<ge> 1024 ^ 2"
    | "a < 1024 ^ 2" "a \<ge> 1024" | "a < 1024" "a \<ge> 1" | "a < 1"
    by linarith
  then show ?thesis
  proof cases
    case 1
    then show ?thesis unfolding fm ru a_def [symmetric]
      by (simp add: byteUnit_def Let_def)
  next
    case 2
    then show ?thesis unfolding fm ru a_def [symmetric]
      by (simp add: byteUnit_def Let_def)
  next
    case 3
    then show ?thesis unfolding fm ru a_def [symmetric]
      by (simp add: byteUnit_def Let_def)
  next
    case 4
    then show ?thesis unfolding fm ru a_def [symmetric]
      by (simp add: byteUnit_def Let_def)
  next
    case 5
    then show ?thesis unfolding fm ru a_def [symmetric]
      by (simp add: byteUnit_def Let_def)
  next
    case 6
    then show ?thesis unfolding fm ru a_def [symmetric]
      by (simp add: byteUnit_def Let_def)
  qed
qed

lemma metricKey_not_proto: "metricKey P item \<noteq> ''__proto__''"
proof
  assume "metricKey P item = ''__proto__''"
  then have "CHR ''|'' \<in> set ''__proto__''"
    unfolding metricKey_def by (metis in_set_conv_decomp append_Cons append_Nil)
  then show False by simp
qed

lemma unitHints_no_fields:
  "\<forall>f \<in> set fs. readProp metric f = JUndefined \<Longrightarrow> unitHints P metric fs = Inr None"
  by (induction fs) simp_all

lemma getMetricType_entry:
  assumes "\<forall>f \<in> set unitFields. readProp metric f = JUndefined"
  shows "getMetricType P metric nm = namePatterns P nm"
  using unitHints_no_fields [OF assms] by (simp add: getMetricType_def)

lemma storeMetric_memory:
  assumes nm: "readProp item ''name'' = nm" "truthy nm"
    and mt: "readProp item ''metric_type'' = mt"
    and ty: "readProp mt ''type'' \<in> {JStr ''gauge'', JStr ''counter'', JStr ''histogram''}"
    and v: "readProp mt ''value'' = JNum v"
    and ingest: "getMetricType P mt nm = Inr ''memory''"
  shows "\<exists>entry. storeMetric P item td = Inr (td(metricKey P item \<mapsto> entry))
      \<and> readProp entry ''value'' = JNum (v * 1024)
      \<and> readProp entry ''name'' = nm
      \<and> (\<forall>f \<in> set unitFields. readProp entry f = JUndefined)"
proof -
  obtain kvs where item: "item = JObj kvs"
    using nm by (cases item) auto
  have tmt: "truthy mt" using ty by (cases mt) auto
  let ?entry = "JObj [(''name'', nm),
      (''labels'', orDefault (readProp item ''labels'') (JObj [])),
      (''value'', JNum (v * 1024)),
      (''cached_rate'', orDefault (readProp item ''cached_rate'') (JNum 0)),
      (''last_updated'', readProp item ''last_updated''), (''metric_type'', mt),
      (''key'', JStr (metricKey P item))]"
  have "storeMetric P item td = Inr (td(metricKey P item \<mapsto> ?entry))"
    using nm mt ty v ingest tmt item
    unfolding storeMetric_def Let_def
    by (auto simp: assign_def metricKey_not_proto)
  moreover have "\<forall>f \<in> set unitFields. readProp ?entry f = JUndefined"
    by (simp add: unitFields_def)
  ultimately show ?thesis by (intro exI [of _ ?entry]) simp
qed

text \<open>
  C9 as stated fails in its last part: a value that is of memory type at ingest need not
  be of memory type at display. The item \<^verbatim>\<open>gc_latency\<close> with the unit hint \<^verbatim>\<open>KB\<close> is
  classified as memory from its \<^verbatim>\<open>metric_type\<close> and stored as \<open>1 * 1024\<close>; the stored entry
  has no unit fields, so \<^verbatim>\<open>formatValue\<close> classifies it by its name, as time, and shows
  \<^verbatim>\<open>formatTime(1024)\<close>, \<^verbatim>\<open>'17 m'\<close>: the value has been scaled once, not twice
  (\<^verbatim>\<open>formatMemory(1024)\<close> would be \<^verbatim>\<open>'1 MB'\<close>).
\<close>

lemma examplePlatform_strings:
  "ToString examplePlatform (JStr s) = s"
  "JSON_stringify examplePlatform (JObj []) = ''{}''"
  by (simp_all add: examplePlatform_def)

lemma gcLatency_ingest_type:
  "getMetricType examplePlatform
     (JObj [(''type'', JStr ''gauge''), (''value'', JNum 1), (''unit'', JStr ''KB'')])
     (JStr ''gc_latency'') = Inr ''memory''"
  by code_simp

theorem memory_scaled_once_counterexample:
  "getMetricType examplePlatform (readProp gcLatencyItem ''metric_type'')
       (readProp gcLatencyItem ''name'') = Inr ''memory''
   \<and> storeMetric examplePlatform gcLatencyItem Map.empty
       = Inr [''gc_latency|{}'' \<mapsto> gcLatencyEntry]
   \<and> readProp gcLatencyEntry ''value'' = JNum (1 * 1024)
   \<and> formatValue examplePlatform notModelled (readProp gcLatencyEntry ''value'')
         (readProp gcLatencyEntry ''name'') gcLatencyEntry = Inr ''17 m''
   \<and> formatMemory examplePlatform (Some (1 * 1024)) = ''1 MB''"
proof (intro conjI)
  show "getMetricType examplePlatform (readProp gcLatencyItem ''metric_type'')
       (readProp gcLatencyItem ''name'') = Inr ''memory''"
    by (simp add: gcLatencyItem_def gcLatency_ingest_type)
  show "storeMetric examplePlatform gcLatencyItem Map.empty
       = Inr [''gc_latency|{}'' \<mapsto> gcLatencyEntry]"
    by (simp add: storeMetric_def gcLatencyItem_def gcLatencyEntry_def metricKey_def
        orDefault_def assign_def Let_def examplePlatform_strings gcLatency_ingest_type)
  show "readProp gcLatencyEntry ''value'' = JNum (1 * 1024)"
    by (simp add: gcLatencyEntry_def)
  show "formatValue examplePlatform notModelled (readProp gcLatencyEntry ''value'')
         (readProp gcLatencyEntry ''name'') gcLatencyEntry = Inr ''17 m''"
    by code_simp
  show "formatMemory examplePlatform (Some (1 * 1024)) = ''1 MB''"
    by code_simp
qed

text \<open>
  C9, amended. \<^verbatim>\<open>formatMemory\<close> reads its argument as kibibytes: \<^verbatim>\<open>formatMemory(1)\<close> is
  \<^verbatim>\<open>'1 KB'\<close>, and for every nonzero \<open>v\<close> the result is the sign, some digits, and the
  unit that the table gives \<open>\<bar>v\<bar> * 1024\<close> bytes. Telemetry ingest multiplies by 1024 the
  numeric values that \<^verbatim>\<open>getMetricType\<close> classifies as memory from the item's
  \<^verbatim>\<open>metric_type\<close> and name; display classifies the stored entry, which carries no unit
  hints, by its name alone. A value that is of memory type at both ends (and small enough
  for the products to stay in the range of doubles) is stored as \<open>v * 1024\<close> and shown as
  \<^verbatim>\<open>formatMemory(v * 1024)\<close>, whose unit is that of \<open>\<bar>v\<bar> * 1024 * 1024\<close> bytes: it is
  scaled by 1024 twice between message and display.
\<close>

theorem formatMemory_kibibytes_scaled_twice:
  "formatMemory P (Some 1) = ''1 KB''
   \<and> (v \<noteq> 0 \<longrightarrow>
        (\<exists>ds. formatMemory P (Some v)
           = (if v < 0 then ''-'' else '''') @ ds @ '' '' @ byteUnit (\<bar>v\<bar> * 1024)))
   \<and> (readProp item ''name'' = nm \<and> truthy nm \<and> readProp item ''metric_type'' = mt
        \<and> readProp mt ''type'' \<in> {JStr ''gauge'', JStr ''counter'', JStr ''histogram''}
        \<and> readProp mt ''value'' = JNum v \<and> \<bar>v\<bar> * 1024 * 1024 < 2 ^ 1023
        \<and> getMetricType P mt nm = Inr ''memory'' \<and> namePatterns P nm = Inr ''memory''
      \<longrightarrow> (\<exists>entry. storeMetric P item td = Inr (td(metricKey P item \<mapsto> entry))
             \<and> readProp entry ''value'' = JNum (v * 1024)
             \<and> formatValue P elsewhere (readProp entry ''value'') (readProp entry ''name'') entry
                 = Inr (formatMemory P (Some (v * 1024)))
             \<and> (v \<noteq> 0 \<longrightarrow>
                  (\<exists>ds. formatMemory P (Some (v * 1024))
                     = (if v < 0 then ''-'' else '''') @ ds @ '' ''
                         @ byteUnit (\<bar>v\<bar> * 1024 * 1024)))))"
proof (intro conjI impI)
  show "formatMemory P (Some 1) = ''1 KB''"
    by (simp add: formatMemory_def units_def toFixed_def digits.simps stripZeros_def)
next
  assume "v \<noteq> 0"
  then show "\<exists>ds. formatMemory P (Some v)
      = (if v < 0 then ''-'' else '''') @ ds @ '' '' @ byteUnit (\<bar>v\<bar> * 1024)"
    by (rule formatMemory_unit)
next
  assume h: "readProp item ''name'' = nm \<and> truthy nm \<and> readProp item ''metric_type'' = mt
        \<and> readProp mt ''type'' \<in> {JStr ''gauge'', JStr ''counter'', JStr ''histogram''}
        \<and> readProp mt ''value'' = JNum v \<and> \<bar>v\<bar> * 1024 * 1024 < 2 ^ 1023
        \<and> getMetricType P mt nm = Inr ''memory'' \<and> namePatterns P nm = Inr ''memory''"
  then obtain entry where e: "storeMetric P item td = Inr (td(metricKey P item \<mapsto> entry))"
    "readProp entry ''value'' = JNum (v * 1024)" "readProp entry ''name'' = nm"
    "\<forall>f \<in> set unitFields. readProp entry f = JUndefined"
    using storeMetric_memory [of item nm mt v P td] by blast
  have "getMetricType P entry nm = Inr ''memory''"
    using getMetricType_entry [OF e(4)] h by simp
  then have disp: "formatValue P elsewhere (readProp entry ''value'') (readProp entry ''name'') entry
      = Inr (formatMemory P (Some (v * 1024)))"
    using e(2,3) by (simp add: formatValue_def)
  have twice: "\<exists>ds. formatMemory P (Some (v * 1024))
      = (if v < 0 then ''-'' else '''') @ ds @ '' '' @ byteUnit (\<bar>v\<bar> * 1024 * 1024)"
    if "v \<noteq> 0"
    using formatMemory_unit [of "v * 1024" P] that
    by (simp add: abs_mult mult_less_0_iff)
  show "\<exists>entry. storeMetric P item td = Inr (td(metricKey P item \<mapsto> entry))
      \<and> readProp entry ''value'' = JNum (v * 1024)
      \<and> formatValue P elsewhere (readProp entry ''value'') (readProp entry ''name'') entry
          = Inr (formatMemory P (Some (v * 1024)))
      \<and> (v \<noteq> 0 \<longrightarrow>
           (\<exists>ds. formatMemory P (Some (v * 1024))
              = (if v < 0 then ''-'' else '''') @ ds @ '' ''
                  @ byteUnit (\<bar>v\<bar> * 1024 * 1024)))"
    using e(1,2) disp twice by blast
qed

lemma memoryUsed_types:
  "getMetricType examplePlatform (JObj [(''type'', JStr ''gauge''), (''value'', JNum 1)])
     (JStr ''memory_used'') = Inr ''memory''"
  "namePatterns examplePlatform (JStr ''memory_used'') = Inr ''memory''"
  by code_simp+

theorem formatMemory_kibibytes_scaled_twice_witness:
  "\<exists>entry. storeMetric examplePlatform memoryUsedItem Map.empty
        = Inr [''memory_used|{}'' \<mapsto> entry]
     \<and> readProp entry ''value'' = JNum 1024
     \<and> formatValue examplePlatform notModelled (readProp entry ''value'')
          (readProp entry ''name'') entry = Inr ''1 MB''"
proof -
  have fm: "formatMemory examplePlatform (Some 1024) = ''1 MB''"
    by (simp add: formatMemory_def units_def toFixed_def digits.simps stripZeros_def)
  have key: "metricKey examplePlatform memoryUsedItem = ''memory_used|{}''"
    by (simp add: metricKey_def memoryUsedItem_def examplePlatform_def orDefault_def)
  have props: "readProp memoryUsedItem ''name'' = JStr ''memory_used''"
    "readProp memoryUsedItem ''metric_type''
       = JObj [(''type'', JStr ''gauge''), (''value'', JNum 1)]"
    by (simp_all add: memoryUsedItem_def)
  from formatMemory_kibibytes_scaled_twice [of examplePlatform 1 memoryUsedItem
      "JStr ''memory_used''" "JObj [(''type'', JStr ''gauge''), (''value'', JNum 1)]"
      Map.empty notModelled] memoryUsed_types props
  show ?thesis
    by (simp add: fm key) blast
qed

subsection \<open>Subscribing: once per callback, and names that are not streams\<close>

text \<open>
  The registry of a stream is a \<^verbatim>\<open>Set\<close>: subscribing a callback again changes nothing,
  a publish invokes it once, and one \<^verbatim>\<open>unsubscribeFromStream\<close> removes it. A name that
  resolves to no property at all is ignored by both functions.
\<close>

lemma subscribeToStream_idempotent:
  assumes "subscribeToStream streamName cb subs = Inr subs1"
  shows "subscribeToStream streamName cb subs1 = Inr subs1"
  using assms
  by (cases "getProperty streamName") (auto simp: subscribeToStream_def Set_add_def)

lemma count_list_distinct: "distinct xs \<Longrightarrow> x \<in> set xs \<Longrightarrow> count_list xs x = 1"
  by (induction xs) auto

lemma subscribed_once:
  assumes "ownProperty streamName = Some ch"
    and "subscribeToStream streamName cb subs = Inr subs1"
    and "distinct (Set_values (subs ch))"
  shows "distinct (Set_values (subs1 ch)) \<and> count_list (Set_values (subs1 ch)) cb = 1"
proof -
  have "subs1 ch = Set_add cb (subs ch)"
    using assms(1,2) by (auto simp: subscribeToStream_def getProperty_def)
  moreover have "cb \<in> set (Set_values (Set_add cb (subs ch)))"
    by (simp add: Set_add_def Set_values_mem)
  moreover have "distinct (Set_values (Set_add cb (subs ch)))"
    using assms(3) by (simp add: Set_add_def Set_values_mem)
  ultimately show ?thesis by (simp add: count_list_distinct)
qed

lemma unsubscribed_entirely:
  assumes "ownProperty streamName = Some ch"
    and "unsubscribeFromStream streamName cb subs = Inr subs1"
  shows "cb \<notin> set (Set_values (subs1 ch))"
proof -
  have "subs1 ch = Set_delete cb (subs ch)"
    using assms by (auto simp: unsubscribeFromStream_def getProperty_def)
  then show ?thesis by (simp add: Set_values_delete)
qed

lemma unresolved_name_ignored:
  assumes "getProperty streamName = Undefined"
  shows "subscribeToStream streamName cb subs = Inr subs"
    and "unsubscribeFromStream streamName cb subs = Inr subs"
  using assms by (simp_all add: subscribeToStream_def unsubscribeFromStream_def)

text \<open>
  C10 at the input where the code departs from it. \<^verbatim>\<open>constructor\<close> is not the name of a
  stream, yet \<^verbatim>\<open>widgetSubscribers['constructor']\<close> is the inherited \<^verbatim>\<open>Object\<close> function, a
  truthy value, so the guard lets the call through to \<^verbatim>\<open>.add(callback)\<close> and
  \<^verbatim>\<open>.delete(callback)\<close>, which are not there: both functions throw a \<^verbatim>\<open>TypeError\<close>
  instead of doing nothing.
\<close>

theorem subscribeToStream_inherited_name:
  "subscribeToStream ''constructor'' 1 emptySubscribers = Inl TypeError
   \<and> unsubscribeFromStream ''constructor'' 1 emptySubscribers = Inl TypeError"
  by (simp add: subscribeToStream_def unsubscribeFromStream_def getProperty_def
      ownProperty_def objectPrototypeKeys_def)

end
